theory Spec2Isabelle
  imports Complex_Main "HOL-Library.Log_Nat"
begin

section \<open>Numbers: JavaScript Number and C double\<close>

text \<open>
  A JavaScript Number and a C \<^verbatim>\<open>double\<close> are the same IEEE 754 binary64 value. The
  finite ones are modelled by the real number they denote, next to the two infinities and
  NaN. The sign of zero is not modelled: no operation of the code below divides by a
  computed zero, and \<^verbatim>\<open>String\<close> prints both zeros as \<^verbatim>\<open>0\<close>.
\<close>

datatype jsnum = Fin real | PInf | NInf | NaN

fun isFinite :: "jsnum \<Rightarrow> bool" where
  "isFinite (Fin _) = True"
| "isFinite _ = False"

text \<open>Comparison: every comparison with NaN is false.\<close>

fun js_lt :: "jsnum \<Rightarrow> jsnum \<Rightarrow> bool" where
  "js_lt NaN _ = False"
| "js_lt _ NaN = False"
| "js_lt (Fin a) (Fin b) = (a < b)"
| "js_lt (Fin _) PInf = True"
| "js_lt (Fin _) NInf = False"
| "js_lt PInf _ = False"
| "js_lt NInf NInf = False"
| "js_lt NInf _ = True"

definition js_gt :: "jsnum \<Rightarrow> jsnum \<Rightarrow> bool" where
  "js_gt a b = js_lt b a"

fun js_eq :: "jsnum \<Rightarrow> jsnum \<Rightarrow> bool" where
  "js_eq NaN _ = False"
| "js_eq _ NaN = False"
| "js_eq a b = (a = b)"

subsection \<open>Rounding to binary64\<close>

text \<open>
  \<open>expo x\<close> is the binary exponent of a non-zero real: \<open>2 ^ expo x \<le> \<bar>x\<bar> < 2 ^ (expo x + 1)\<close>.
  \<open>fl x\<close> is the value with a 53-bit significand (and exponent at least \<open>-1022\<close>, so
  subnormals are covered) nearest to \<open>x\<close>, ties to the even significand; \<open>to_double\<close>
  turns a rounded magnitude of \<open>2 ^ 1024\<close> or more into an infinity.
\<close>

definition pow2 :: "int \<Rightarrow> real" where
  "pow2 e = (if 0 \<le> e then 2 ^ nat e else 1 / 2 ^ nat (- e))"

definition expo :: "real \<Rightarrow> int" where
  "expo x = (if 1 \<le> \<bar>x\<bar> then bitlen \<lfloor>\<bar>x\<bar>\<rfloor> - 1 else - bitlen (\<lceil>1 / \<bar>x\<bar>\<rceil> - 1))"

definition round_even :: "real \<Rightarrow> int" where
  "round_even x =
     (let f = \<lfloor>x\<rfloor>; d = x - of_int f
      in if d < 1 / 2 then f else if 1 / 2 < d then f + 1 else if even f then f else f + 1)"

definition fl :: "real \<Rightarrow> real" where
  "fl x = (if x = 0 then 0
           else let u = pow2 (max (expo x) (- 1022) - 52) in of_int (round_even (x / u)) * u)"

definition to_double :: "real \<Rightarrow> jsnum" where
  "to_double x =
     (let y = fl x in if 2 ^ 1024 \<le> y then PInf else if y \<le> - (2 ^ 1024) then NInf else Fin y)"

subsection \<open>Arithmetic\<close>

fun js_sign :: "jsnum \<Rightarrow> int" where
  "js_sign (Fin a) = (if a = 0 then 0 else if 0 < a then 1 else - 1)"
| "js_sign PInf = 1"
| "js_sign NInf = - 1"
| "js_sign NaN = 0"

definition signed_inf :: "int \<Rightarrow> jsnum" where
  "signed_inf s = (if s = 0 then NaN else if 0 < s then PInf else NInf)"

fun js_neg :: "jsnum \<Rightarrow> jsnum" where
  "js_neg (Fin a) = Fin (- a)"
| "js_neg PInf = NInf"
| "js_neg NInf = PInf"
| "js_neg NaN = NaN"

fun js_mul :: "jsnum \<Rightarrow> jsnum \<Rightarrow> jsnum" where
  "js_mul NaN _ = NaN"
| "js_mul _ NaN = NaN"
| "js_mul (Fin a) (Fin b) = to_double (a * b)"
| "js_mul x y = signed_inf (js_sign x * js_sign y)"

fun js_div :: "jsnum \<Rightarrow> jsnum \<Rightarrow> jsnum" where
  "js_div NaN _ = NaN"
| "js_div _ NaN = NaN"
| "js_div (Fin a) (Fin b) = (if b = 0 then signed_inf (js_sign (Fin a)) else to_double (a / b))"
| "js_div (Fin a) _ = Fin 0"
| "js_div x (Fin b) = signed_inf (js_sign x * (if b < 0 then - 1 else 1))"
| "js_div _ _ = NaN"

fun js_sub :: "jsnum \<Rightarrow> jsnum \<Rightarrow> jsnum" where
  "js_sub NaN _ = NaN"
| "js_sub _ NaN = NaN"
| "js_sub (Fin a) (Fin b) = to_double (a - b)"
| "js_sub PInf PInf = NaN"
| "js_sub NInf NInf = NaN"
| "js_sub (Fin a) y = js_neg y"
| "js_sub x _ = x"

text \<open>
  The remainder \<^verbatim>\<open>%\<close> has the sign of the dividend and is exact:
  \<open>a - b * trunc (a / b)\<close>.
\<close>

definition trunc :: "real \<Rightarrow> int" where
  "trunc r = (if 0 \<le> r then \<lfloor>r\<rfloor> else \<lceil>r\<rceil>)"

fun js_mod :: "jsnum \<Rightarrow> jsnum \<Rightarrow> jsnum" where
  "js_mod (Fin a) (Fin b) = (if b = 0 then NaN else Fin (a - b * of_int (trunc (a / b))))"
| "js_mod (Fin a) PInf = Fin a"
| "js_mod (Fin a) NInf = Fin a"
| "js_mod _ _ = NaN"

text \<open>
  \<^verbatim>\<open>Math.floor\<close> and \<^verbatim>\<open>Math.round\<close> are exact; \<^verbatim>\<open>Math.round\<close> takes a tie to
  the integer towards \<open>+\<infinity>\<close>. Both return an infinity or NaN unchanged.
\<close>

fun Math_floor :: "jsnum \<Rightarrow> jsnum" where
  "Math_floor (Fin r) = Fin (of_int \<lfloor>r\<rfloor>)"
| "Math_floor x = x"

fun Math_round :: "jsnum \<Rightarrow> jsnum" where
  "Math_round (Fin r) = Fin (of_int \<lfloor>r + 1 / 2\<rfloor>)"
| "Math_round x = x"

subsection \<open>Strings\<close>

definition digit_char :: "nat \<Rightarrow> char" where
  "digit_char d = ''0123456789'' ! d"

fun decimal :: "nat \<Rightarrow> string" where
  "decimal n = (if n < 10 then [digit_char n] else decimal (n div 10) @ [digit_char (n mod 10)])"

declare decimal.simps [simp del]

text \<open>
  \<^verbatim>\<open>String(x)\<close> for a Number. An integer of magnitude below \<open>10 ^ 21\<close> prints as its
  decimal digits. Any other finite value prints with a fraction or an exponent, through the
  shortest-digits algorithm of ECMAScript's \<^verbatim>\<open>Number::toString\<close>; that algorithm is the
  parameter \<open>nts\<close>.
\<close>

fun js_String :: "(real \<Rightarrow> string) \<Rightarrow> jsnum \<Rightarrow> string" where
  "js_String nts NaN = ''NaN''"
| "js_String nts PInf = ''Infinity''"
| "js_String nts NInf = ''-Infinity''"
| "js_String nts (Fin r) =
     (if r = of_int \<lfloor>r\<rfloor> \<and> \<bar>r\<bar> < 10 ^ 21
      then (if r < 0 then ''-'' else '''') @ decimal (nat \<bar>\<lfloor>r\<rfloor>\<bar>)
      else nts r)"

definition padStart :: "nat \<Rightarrow> char \<Rightarrow> string \<Rightarrow> string" where
  "padStart n c s = replicate (n - length s) c @ s"

section \<open>formatTime (src/index.ts)\<close>

definition formatTime :: "(real \<Rightarrow> string) \<Rightarrow> jsnum \<Rightarrow> string" where
  "formatTime nts hours =
     (if \<not> isFinite hours \<or> js_lt hours (Fin 0) then ''N/A''
      else
        let totalSec = Math_round (js_mul hours (Fin 3600));
            h = js_mod (Math_floor (js_div totalSec (Fin 3600))) (Fin 24);
            rem = js_sub totalSec (js_mul (Math_floor (js_div totalSec (Fin 3600))) (Fin 3600));
            m = Math_floor (js_div rem (Fin 60));
            s = js_sub rem (js_mul m (Fin 60))
        in padStart 2 (CHR ''0'') (js_String nts h) @ '':'' @
           padStart 2 (CHR ''0'') (js_String nts m) @ '':'' @
           padStart 2 (CHR ''0'') (js_String nts s))"


text \<open>
  What the documentation of \<^verbatim>\<open>formatTime\<close> describes, for a whole number \<open>t\<close> of
  seconds: hours modulo 24, minutes and seconds, two decimal digits each.
\<close>

definition two_digits :: "nat \<Rightarrow> string" where
  "two_digits n = [digit_char (n div 10), digit_char (n mod 10)]"

definition clock_string :: "int \<Rightarrow> string" where
  "clock_string t =
     two_digits (nat (t div 3600 mod 24)) @ '':'' @
     two_digits (nat (t mod 3600 div 60)) @ '':'' @
     two_digits (nat (t mod 60))"

section \<open>The engine interface (spa.h)\<close>

text \<open>
  \<^verbatim>\<open>spa_data\<close> is the structure that \<^verbatim>\<open>spa_calculate\<close> reads its inputs from and writes
  its outputs to; only the fields the wrappers touch are kept. The C field \<^verbatim>\<open>function\<close>
  is called \<open>function_code\<close> here. The five calendar fields, the function code and the
  return code are C \<^verbatim>\<open>int\<close>s; they are only copied and compared, never computed with, and
  are modelled as integers.
\<close>

record spa_data =
  year :: int
  month :: int
  day :: int
  hour :: int
  minute :: int
  second :: jsnum
  delta_ut1 :: jsnum
  delta_t :: jsnum
  timezone :: jsnum
  longitude :: jsnum
  latitude :: jsnum
  elevation :: jsnum
  pressure :: jsnum
  temperature :: jsnum
  slope :: jsnum
  azm_rotation :: jsnum
  atmos_refract :: jsnum
  function_code :: int
  zenith :: jsnum
  azimuth_astro :: jsnum
  azimuth :: jsnum
  incidence :: jsnum
  suntransit :: jsnum
  sunrise :: jsnum
  sunset :: jsnum
  sta :: jsnum
  eot :: jsnum

definition SPA_ZA :: int where "SPA_ZA = 0"
definition SPA_ZA_INC :: int where "SPA_ZA_INC = 1"
definition SPA_ZA_RTS :: int where "SPA_ZA_RTS = 2"
definition SPA_ALL :: int where "SPA_ALL = 3"

text \<open>
  The result structure of the current wrapper, ten fields. The JavaScript object that
  \<^verbatim>\<open>readResult\<close> builds has the same ten fields and is a value of the same record type.
\<close>

record spa_result =
  r_zenith :: jsnum
  r_azimuth_astro :: jsnum
  r_azimuth :: jsnum
  r_incidence :: jsnum
  r_sunrise :: jsnum
  r_sunset :: jsnum
  r_suntransit :: jsnum
  r_sun_transit_alt :: jsnum
  r_eot :: jsnum
  r_error_code :: int

text \<open>The result structure of the legacy wrapper: seven doubles and no error code.\<close>

record legacy_result =
  v1_zenith :: jsnum
  v1_azimuth :: jsnum
  v1_incidence :: jsnum
  v1_sunrise :: jsnum
  v1_sunset :: jsnum
  v1_solar_noon :: jsnum
  v1_sun_transit_alt :: jsnum

text \<open>
  What the compiled module depends on and the sources do not fix:
  whether the module loads, whether \<^verbatim>\<open>malloc\<close> succeeds, the content of the wrapper's
  uninitialised local \<^verbatim>\<open>spa_data spa\<close>, the engine \<^verbatim>\<open>spa_calculate\<close> of spa.c (its return
  code and the structure as it leaves it), and, for the legacy binding, what a read
  through a null result pointer finds and whether Emscripten calls the
  \<^verbatim>\<open>onRuntimeInitialized\<close> callback that the call installed.
\<close>

record wasm_host =
  module_loads :: bool
  malloc_ok :: bool
  stack_garbage :: spa_data
  spa_calculate :: "spa_data \<Rightarrow> int \<times> spa_data"
  null_read :: legacy_result
  callback_runs :: bool

section \<open>The current wrapper (spa_wrapper.c, eighteen arguments)\<close>

definition spa_calculate_wrapper ::
  "wasm_host \<Rightarrow> int \<Rightarrow> int \<Rightarrow> int \<Rightarrow> int \<Rightarrow> int \<Rightarrow> jsnum \<Rightarrow> jsnum \<Rightarrow> jsnum \<Rightarrow> jsnum \<Rightarrow> jsnum \<Rightarrow>
   jsnum \<Rightarrow> jsnum \<Rightarrow> jsnum \<Rightarrow> jsnum \<Rightarrow> jsnum \<Rightarrow> jsnum \<Rightarrow> jsnum \<Rightarrow> int \<Rightarrow> spa_result option" where
  "spa_calculate_wrapper host a_year a_month a_day a_hour a_minute a_second a_timezone
     a_latitude a_longitude a_elevation a_pressure a_temperature a_delta_ut1 a_delta_t
     a_slope a_azm_rotation a_atmos_refract a_function_code =
     (if \<not> malloc_ok host then None
      else
        let spa = (stack_garbage host)
              \<lparr>year := a_year, month := a_month, day := a_day, hour := a_hour,
               minute := a_minute, second := a_second, timezone := a_timezone,
               latitude := a_latitude, longitude := a_longitude, elevation := a_elevation,
               pressure := a_pressure, temperature := a_temperature,
               delta_ut1 := a_delta_ut1, delta_t := a_delta_t, slope := a_slope,
               azm_rotation := a_azm_rotation, atmos_refract := a_atmos_refract,
               function_code := a_function_code\<rparr>;
            rc = fst (spa_calculate host spa);
            spa' = snd (spa_calculate host spa)
        in Some (if rc = 0
                 then \<lparr>r_zenith = zenith spa', r_azimuth_astro = azimuth_astro spa',
                       r_azimuth = azimuth spa', r_incidence = incidence spa',
                       r_sunrise = sunrise spa', r_sunset = sunset spa',
                       r_suntransit = suntransit spa', r_sun_transit_alt = sta spa',
                       r_eot = eot spa', r_error_code = rc\<rparr>
                 else \<lparr>r_zenith = Fin 0, r_azimuth_astro = Fin 0, r_azimuth = Fin 0,
                       r_incidence = Fin 0, r_sunrise = Fin 0, r_sunset = Fin 0,
                       r_suntransit = Fin 0, r_sun_transit_alt = Fin 0, r_eot = Fin 0,
                       r_error_code = rc\<rparr>))"

section \<open>The legacy wrapper (src/spa_wrapper.c, fifteen arguments)\<close>




section \<open>The TypeScript binding (src/index.ts, src/types.ts)\<close>

text \<open>
  A \<^verbatim>\<open>Date\<close> object, as far as the bindings read it: whether its time value is a number
  (\<open>time_valid\<close> is \<^verbatim>\<open>!isNaN(date.getTime())\<close>) and, for a valid date, what the getters
  return. The getters of a valid date return integers; \<^verbatim>\<open>getTimezoneOffset\<close> is a Number
  of minutes.
\<close>

record js_date =
  time_valid :: bool
  getFullYear :: int
  getMonth :: int
  getDate :: int
  getHours :: int
  getMinutes :: int
  getSeconds :: int
  getTimezoneOffset :: jsnum

text \<open>An argument that should be a Number: a Number, or a value of any other type.\<close>

datatype js_value = JSNumber jsnum | JSOther

text \<open>The options object; an omitted (undefined) property is \<open>None\<close>.\<close>

record SpaOptions =
  opt_timezone :: "jsnum option"
  opt_elevation :: "jsnum option"
  opt_pressure :: "jsnum option"
  opt_temperature :: "jsnum option"
  opt_delta_ut1 :: "jsnum option"
  opt_delta_t :: "jsnum option"
  opt_slope :: "jsnum option"
  opt_azm_rotation :: "jsnum option"
  opt_atmos_refract :: "jsnum option"
  opt_function :: "int option"

definition no_options :: SpaOptions where
  "no_options =
     \<lparr>opt_timezone = None, opt_elevation = None, opt_pressure = None, opt_temperature = None,
      opt_delta_ut1 = None, opt_delta_t = None, opt_slope = None, opt_azm_rotation = None,
      opt_atmos_refract = None, opt_function = None\<rparr>"

text \<open>The operator \<^verbatim>\<open>??\<close>: the right operand replaces only a missing left operand.\<close>

definition nullish :: "'a option \<Rightarrow> 'a \<Rightarrow> 'a" where
  "nullish v d = (case v of None \<Rightarrow> d | Some x \<Rightarrow> x)"

text \<open>
  What \<^verbatim>\<open>spa\<close> throws (rejects with), by the \<^verbatim>\<open>throw\<close> statement it comes from; the
  values that the message text interpolates are kept as arguments.
\<close>

datatype spa_error =
    InvalidDate
  | NotFiniteNumber string js_value
  | LatitudeRange jsnum
  | LongitudeRange jsnum
  | InitFailed
  | AllocationFailed
  | CalculationFailed int



fun assertFiniteNumber :: "js_value \<Rightarrow> string \<Rightarrow> spa_error + jsnum" where
  "assertFiniteNumber (JSNumber v) name =
     (if \<not> isFinite v then Inl (NotFiniteNumber name (JSNumber v)) else Inr v)"
| "assertFiniteNumber JSOther name = Inl (NotFiniteNumber name JSOther)"

text \<open>
  \<^verbatim>\<open>readResult\<close> reads the ten fields at the offsets of the table \<^verbatim>\<open>OFFSET\<close>, which are
  the offsets of the structure's fields in declaration order, and frees the structure.
\<close>

definition readResult :: "spa_result \<Rightarrow> spa_result" where
  "readResult p =
     \<lparr>r_zenith = r_zenith p, r_azimuth_astro = r_azimuth_astro p, r_azimuth = r_azimuth p,
      r_incidence = r_incidence p, r_sunrise = r_sunrise p, r_sunset = r_sunset p,
      r_suntransit = r_suntransit p, r_sun_transit_alt = r_sun_transit_alt p,
      r_eot = r_eot p, r_error_code = r_error_code p\<rparr>"

text \<open>
  \<^verbatim>\<open>spa\<close>. A rejected promise is \<open>Inl\<close>, a resolved one \<open>Inr\<close>. The singleton of \<^verbatim>\<open>init\<close>
  only caches the loaded module; \<open>module_loads\<close> says whether \<^verbatim>\<open>await init()\<close> succeeds
  in this call.
\<close>

definition spa ::
  "wasm_host \<Rightarrow> js_date option \<Rightarrow> js_value \<Rightarrow> js_value \<Rightarrow> SpaOptions option \<Rightarrow>
   spa_error + spa_result" where
  "spa host date a_latitude a_longitude options =
     (case date of
        None \<Rightarrow> Inl InvalidDate
      | Some d \<Rightarrow>
         (if \<not> time_valid d then Inl InvalidDate
          else
           (case assertFiniteNumber a_latitude ''latitude'' of
              Inl e \<Rightarrow> Inl e
            | Inr lat \<Rightarrow>
               (case assertFiniteNumber a_longitude ''longitude'' of
                  Inl e \<Rightarrow> Inl e
                | Inr lon \<Rightarrow>
                   (if js_lt lat (Fin (- 90)) \<or> js_gt lat (Fin 90) then Inl (LatitudeRange lat)
                    else if js_lt lon (Fin (- 180)) \<or> js_gt lon (Fin 180)
                    then Inl (LongitudeRange lon)
                    else if \<not> module_loads host then Inl InitFailed
                    else
                      (let opts = nullish options no_options;
                           tz = nullish (opt_timezone opts)
                                  (js_neg (js_div (getTimezoneOffset d) (Fin 60)));
                           ptr = spa_calculate_wrapper host
                                   (getFullYear d)
                                   (getMonth d + 1)
                                   (getDate d)
                                   (getHours d)
                                   (getMinutes d)
                                   (Fin (of_int (getSeconds d)))
                                   tz
                                   lat
                                   lon
                                   (nullish (opt_elevation opts) (Fin 0))
                                   (nullish (opt_pressure opts) (Fin (101325 / 100)))
                                   (nullish (opt_temperature opts) (Fin 15))
                                   (nullish (opt_delta_ut1 opts) (Fin 0))
                                   (nullish (opt_delta_t opts) (Fin 67))
                                   (nullish (opt_slope opts) (Fin 0))
                                   (nullish (opt_azm_rotation opts) (Fin 0))
                                   (nullish (opt_atmos_refract opts) (Fin (fl (5667 / 10000))))
                                   (nullish (opt_function opts) SPA_ALL)
                       in (case ptr of
                             None \<Rightarrow> Inl AllocationFailed
                           | Some p \<Rightarrow>
                              (let result = readResult p
                               in if r_error_code result \<noteq> 0
                                  then Inl (CalculationFailed (r_error_code result))
                                  else Inr result))))))))"

record SpaFormattedResult =
  f_zenith :: jsnum
  f_azimuth_astro :: jsnum
  f_azimuth :: jsnum
  f_incidence :: jsnum
  f_sunrise :: string
  f_sunset :: string
  f_suntransit :: string
  f_sun_transit_alt :: jsnum
  f_eot :: jsnum
  f_error_code :: int

definition spaFormatted ::
  "(real \<Rightarrow> string) \<Rightarrow> wasm_host \<Rightarrow> js_date option \<Rightarrow> js_value \<Rightarrow> js_value \<Rightarrow>
   SpaOptions option \<Rightarrow> spa_error + SpaFormattedResult" where
  "spaFormatted nts host date a_latitude a_longitude options =
     (case spa host date a_latitude a_longitude options of
        Inl e \<Rightarrow> Inl e
      | Inr result \<Rightarrow>
          Inr \<lparr>f_zenith = r_zenith result,
               f_azimuth_astro = r_azimuth_astro result,
               f_azimuth = r_azimuth result,
               f_incidence = r_incidence result,
               f_sunrise = formatTime nts (r_sunrise result),
               f_sunset = formatTime nts (r_sunset result),
               f_suntransit = formatTime nts (r_suntransit result),
               f_sun_transit_alt = r_sun_transit_alt result,
               f_eot = r_eot result,
               f_error_code = r_error_code result\<rparr>)"

section \<open>The legacy binding (solar-spa.js)\<close>




text \<open>
  The structure that \<^verbatim>\<open>spa\<close> hands to the engine, once its own checks have passed:
  the arguments of the call to the wrapper, stored by the wrapper field by field.
\<close>

definition engine_input :: "wasm_host \<Rightarrow> js_date \<Rightarrow> jsnum \<Rightarrow> jsnum \<Rightarrow> SpaOptions option \<Rightarrow> spa_data" where
  "engine_input host d lat lon options =
     (let opts = nullish options no_options
      in (stack_garbage host)
           \<lparr>year := getFullYear d, month := getMonth d + 1, day := getDate d,
            hour := getHours d, minute := getMinutes d,
            second := Fin (of_int (getSeconds d)),
            timezone := nullish (opt_timezone opts)
                          (js_neg (js_div (getTimezoneOffset d) (Fin 60))),
            latitude := lat, longitude := lon,
            elevation := nullish (opt_elevation opts) (Fin 0),
            pressure := nullish (opt_pressure opts) (Fin (101325 / 100)),
            temperature := nullish (opt_temperature opts) (Fin 15),
            delta_ut1 := nullish (opt_delta_ut1 opts) (Fin 0),
            delta_t := nullish (opt_delta_t opts) (Fin 67),
            slope := nullish (opt_slope opts) (Fin 0),
            azm_rotation := nullish (opt_azm_rotation opts) (Fin 0),
            atmos_refract := nullish (opt_atmos_refract opts) (Fin (fl (5667 / 10000))),
            function_code := nullish (opt_function opts) SPA_ALL\<rparr>)"


section \<open>Input validation of the engine\<close>

text \<open>
  Modelled from the spec: the input validation of \<^verbatim>\<open>spa_calculate\<close>, which is in src/spa.c,
  a file that is not among the sources. Section 6 of the spec gives one bound per input
  field; a field violates its bound when its value lies below the lower or above the upper
  end (for \<^verbatim>\<open>second\<close>, at or above 60). The checks run in the order of that table, the first
  violation decides, and each field has an error code of its own. The spec does not give
  the codes: the assignment \<open>code_of\<close> is a parameter. The astronomical computation that
  follows an accepted input is the parameter \<open>astro\<close>.
\<close>

datatype field =
    Year | Month | Day | Hour | Minute | Second | Timezone | Latitude | Longitude
  | Elevation | Pressure | Temperature | Delta_ut1 | Delta_t | Slope | Azm_rotation
  | Atmos_refract

definition out_int :: "int \<Rightarrow> int \<Rightarrow> int \<Rightarrow> bool" where
  "out_int lo hi x = (x < lo \<or> hi < x)"

definition out_num :: "real \<Rightarrow> real \<Rightarrow> jsnum \<Rightarrow> bool" where
  "out_num lo hi x = (js_lt x (Fin lo) \<or> js_gt x (Fin hi))"

fun violates :: "field \<Rightarrow> spa_data \<Rightarrow> bool" where
  "violates Year d = out_int (- 2000) 6000 (year d)"
| "violates Month d = out_int 1 12 (month d)"
| "violates Day d = out_int 1 31 (day d)"
| "violates Hour d = out_int 0 24 (hour d)"
| "violates Minute d = out_int 0 59 (minute d)"
| "violates Second d =
     (js_lt (second d) (Fin 0) \<or> js_gt (second d) (Fin 60) \<or> js_eq (second d) (Fin 60))"
| "violates Timezone d = out_num (- 18) 18 (timezone d)"
| "violates Latitude d = out_num (- 90) 90 (latitude d)"
| "violates Longitude d = out_num (- 180) 180 (longitude d)"
| "violates Elevation d = js_lt (elevation d) (Fin (- 6500000))"
| "violates Pressure d = out_num 0 5000 (pressure d)"
| "violates Temperature d = out_num (- 273) 6000 (temperature d)"
| "violates Delta_ut1 d = out_num (- 1) 1 (delta_ut1 d)"
| "violates Delta_t d = out_num (- 8000) 8000 (delta_t d)"
| "violates Slope d = out_num (- 360) 360 (slope d)"
| "violates Azm_rotation d = out_num (- 360) 360 (azm_rotation d)"
| "violates Atmos_refract d = out_num (- 5) 5 (atmos_refract d)"

definition check_order :: "field list" where
  "check_order =
     [Year, Month, Day, Hour, Minute, Second, Timezone, Latitude, Longitude, Elevation,
      Pressure, Temperature, Delta_ut1, Delta_t, Slope, Azm_rotation, Atmos_refract]"

definition first_violation :: "spa_data \<Rightarrow> field option" where
  "first_violation d = find (\<lambda>f. violates f d) check_order"

definition spa_calculate_spec ::
  "(field \<Rightarrow> int) \<Rightarrow> (spa_data \<Rightarrow> spa_data) \<Rightarrow> spa_data \<Rightarrow> int \<times> spa_data" where
  "spa_calculate_spec code_of astro d =
     (case first_violation d of Some f \<Rightarrow> (code_of f, d) | None \<Rightarrow> (0, astro d))"

section \<open>Concrete inputs\<close>

text \<open>
  The reference case of the spec: 2003-10-17 12:30:30, time zone \<open>-7\<close>, Golden, Colorado.
  \<^verbatim>\<open>getMonth\<close> counts from zero, and \<^verbatim>\<open>getTimezoneOffset\<close> is in minutes, west positive.
\<close>

definition reference_date :: js_date where
  "reference_date =
     \<lparr>time_valid = True, getFullYear = 2003, getMonth = 9, getDate = 17, getHours = 12,
      getMinutes = 30, getSeconds = 30, getTimezoneOffset = Fin 420\<rparr>"


text \<open>A structure whose fields are all zero, standing for one content of uninitialised memory.\<close>

definition zero_spa_data :: spa_data where
  "zero_spa_data =
     \<lparr>year = 0, month = 0, day = 0, hour = 0, minute = 0, second = Fin 0, delta_ut1 = Fin 0,
      delta_t = Fin 0, timezone = Fin 0, longitude = Fin 0, latitude = Fin 0,
      elevation = Fin 0, pressure = Fin 0, temperature = Fin 0, slope = Fin 0,
      azm_rotation = Fin 0, atmos_refract = Fin 0, function_code = 0, zenith = Fin 0,
      azimuth_astro = Fin 0, azimuth = Fin 0, incidence = Fin 0, suntransit = Fin 0,
      sunrise = Fin 0, sunset = Fin 0, sta = Fin 0, eot = Fin 0\<rparr>"

definition zero_legacy_result :: legacy_result where
  "zero_legacy_result =
     \<lparr>v1_zenith = Fin 0, v1_azimuth = Fin 0, v1_incidence = Fin 0, v1_sunrise = Fin 0,
      v1_sunset = Fin 0, v1_solar_noon = Fin 0, v1_sun_transit_alt = Fin 0\<rparr>"

text \<open>
  One assignment of codes to fields; it gives the time zone the code 8 that the API
  reference shows for \<^verbatim>\<open>timezone: 100\<close>.
\<close>

fun sample_code :: "field \<Rightarrow> int" where
  "sample_code Year = 1"
| "sample_code Month = 2"
| "sample_code Day = 3"
| "sample_code Hour = 4"
| "sample_code Minute = 5"
| "sample_code Second = 6"
| "sample_code Delta_t = 7"
| "sample_code Timezone = 8"
| "sample_code Longitude = 9"
| "sample_code Latitude = 10"
| "sample_code Elevation = 11"
| "sample_code Pressure = 12"
| "sample_code Temperature = 13"
| "sample_code Slope = 14"
| "sample_code Azm_rotation = 15"
| "sample_code Atmos_refract = 16"
| "sample_code Delta_ut1 = 17"

text \<open>
  A stand-in for the astronomical computation that writes fixed outputs (sunrise at 6.5 h,
  sunset at 18.25 h, transit at 12 h), and a host built on it.
\<close>

definition sample_astro :: "spa_data \<Rightarrow> spa_data" where
  "sample_astro d =
     d\<lparr>zenith := Fin 50, azimuth_astro := Fin 14, azimuth := Fin 194, incidence := Fin 25,
       suntransit := Fin 12, sunrise := Fin (13 / 2), sunset := Fin (73 / 4), sta := Fin 40,
       eot := Fin 14\<rparr>"

definition sample_host :: wasm_host where
  "sample_host =
     \<lparr>module_loads = True, malloc_ok = True, stack_garbage = zero_spa_data,
      spa_calculate = spa_calculate_spec sample_code sample_astro,
      null_read = zero_legacy_result, callback_runs = True\<rparr>"


section \<open>Properties of the rounding\<close>

lemma pow2_powr: "pow2 e = 2 powr (of_int e)"
proof (cases "0 \<le> e")
  case True
  then show ?thesis
    by (simp add: pow2_def powr_realpow [symmetric])
next
  case False
  then have "2 powr (of_int e) = 1 / (2 powr (of_int (- e)) :: real)"
    by (simp add: powr_minus_divide)
  also have "\<dots> = 1 / 2 ^ nat (- e)"
    using False by (simp add: powr_realpow [symmetric])
  finally show ?thesis
    using False by (simp add: pow2_def)
qed

lemma pow2_pos: "0 < pow2 e"
  by (simp add: pow2_powr)

lemma pow2_add: "pow2 (a + b) = pow2 a * pow2 b"
  by (simp add: pow2_powr powr_add)

lemma pow2_mono: "a \<le> b \<Longrightarrow> pow2 a \<le> pow2 b"
  by (simp add: pow2_powr)

lemma pow2_nat: "pow2 (int n) = 2 ^ n"
  by (simp add: pow2_def)

lemma expo_bounds:
  assumes "x \<noteq> 0"
  shows "pow2 (expo x) \<le> \<bar>x\<bar>" and "\<bar>x\<bar> < pow2 (expo x + 1)"
proof -
  have "pow2 (expo x) \<le> \<bar>x\<bar> \<and> \<bar>x\<bar> < pow2 (expo x + 1)"
  proof (cases "1 \<le> \<bar>x\<bar>")
    case True
    define n where "n = \<lfloor>\<bar>x\<bar>\<rfloor>"
    have n: "0 < n" using True by (simp add: n_def)
    have e: "expo x = bitlen n - 1" using True by (simp add: expo_def n_def)
    have b1: "1 \<le> bitlen n" using n by (simp add: bitlen_alt_def)
    from bitlen_bounds [OF n] have lo: "2 ^ nat (bitlen n - 1) \<le> n" and hi: "n < 2 ^ nat (bitlen n)"
      by simp_all
    have "pow2 (expo x) = of_int (2 ^ nat (bitlen n - 1))"
      using b1 by (simp add: e pow2_def)
    also have "\<dots> \<le> of_int n" using lo by (simp only: of_int_le_iff)
    also have "\<dots> \<le> \<bar>x\<bar>" by (simp add: n_def)
    finally have A: "pow2 (expo x) \<le> \<bar>x\<bar>" .
    have "n + 1 \<le> 2 ^ nat (bitlen n)" using hi by simp
    then have "real_of_int (n + 1) \<le> of_int (2 ^ nat (bitlen n))" by (simp only: of_int_le_iff)
    moreover have "\<bar>x\<bar> < real_of_int (n + 1)" by (simp add: n_def)
    moreover have "pow2 (expo x + 1) = of_int (2 ^ nat (bitlen n))"
      using b1 by (simp add: e pow2_def)
    ultimately have "\<bar>x\<bar> < pow2 (expo x + 1)" by simp
    with A show ?thesis by simp
  next
    case False
    define y where "y = 1 / \<bar>x\<bar>"
    define c where "c = \<lceil>y\<rceil>"
    define k where "k = bitlen (c - 1)"
    have x: "0 < \<bar>x\<bar>" "\<bar>x\<bar> < 1" using assms False by simp_all
    then have y: "1 < y" by (simp add: y_def)
    then have c: "0 < c - 1" unfolding c_def by linarith
    have e: "expo x = - k" using False by (simp add: expo_def k_def c_def y_def)
    have k1: "1 \<le> k" using c by (simp add: k_def bitlen_alt_def)
    from bitlen_bounds [OF c] have lo: "2 ^ nat (k - 1) \<le> c - 1" and hi: "c - 1 < 2 ^ nat k"
      by (simp_all add: k_def)
    have "y \<le> of_int c" by (simp add: c_def)
    also have "c \<le> 2 ^ nat k" using hi by simp
    then have "real_of_int c \<le> of_int (2 ^ nat k)" by (simp only: of_int_le_iff)
    finally have "y \<le> 2 ^ nat k" by simp
    then have "1 / 2 ^ nat k \<le> 1 / y"
      using y by (intro divide_left_mono) (simp_all)
    then have A: "pow2 (expo x) \<le> \<bar>x\<bar>"
      using k1 by (simp add: e pow2_def y_def)
    have "real_of_int (2 ^ nat (k - 1)) \<le> of_int (c - 1)" using lo by (simp only: of_int_le_iff)
    also have "of_int (c - 1) < y" unfolding c_def by linarith
    finally have "2 ^ nat (k - 1) < y" by simp
    then have "1 / y < 1 / 2 ^ nat (k - 1)"
      using y by (intro divide_strict_left_mono) (simp_all)
    moreover have "pow2 (expo x + 1) = 1 / 2 ^ nat (k - 1)"
      using k1 by (auto simp add: e pow2_def)
    ultimately have "\<bar>x\<bar> < pow2 (expo x + 1)" by (simp add: y_def)
    with A show ?thesis by simp
  qed
  then show "pow2 (expo x) \<le> \<bar>x\<bar>" and "\<bar>x\<bar> < pow2 (expo x + 1)" by simp_all
qed


lemma round_even_floor: "\<lfloor>x\<rfloor> \<le> round_even x" "round_even x \<le> \<lfloor>x\<rfloor> + 1"
  by (simp_all add: round_even_def Let_def)

lemma round_even_of_int: "round_even (of_int n) = n"
  by (simp add: round_even_def)

lemma round_even_ge: "of_int k \<le> x \<Longrightarrow> k \<le> round_even x"
proof -
  assume "of_int k \<le> x"
  then have "k \<le> \<lfloor>x\<rfloor>" by (simp add: le_floor_iff)
  with round_even_floor(1) [of x] show ?thesis by simp
qed

lemma round_even_le:
  assumes "x \<le> of_int k"
  shows "round_even x \<le> k"
proof (cases "x = of_int k")
  case True
  then show ?thesis by (simp add: round_even_of_int)
next
  case False
  with assms have "x < of_int k" by simp
  then have "\<lfloor>x\<rfloor> < k" by (simp add: floor_less_iff)
  with round_even_floor(2) [of x] show ?thesis by simp
qed

lemma round_even_err: "\<bar>of_int (round_even x) - x\<bar> \<le> 1 / 2"
proof -
  have "of_int \<lfloor>x\<rfloor> \<le> x" "x < of_int \<lfloor>x\<rfloor> + 1" by linarith+
  then show ?thesis
    by (auto simp add: round_even_def Let_def abs_le_iff)
qed

lemma fl_lower:
  assumes "0 < x" and "- 1022 \<le> expo x"
  shows "pow2 (expo x) \<le> fl x"
proof -
  define u where "u = pow2 (expo x - 52)"
  have u: "0 < u" by (simp add: u_def pow2_pos)
  have split: "pow2 (expo x) = 2 ^ 52 * u"
    using pow2_add [of 52 "expo x - 52"] by (simp add: u_def pow2_def)
  have "pow2 (expo x) \<le> x" using expo_bounds(1) [of x] assms by simp
  then have "2 ^ 52 \<le> x / u" using u by (simp add: split pos_le_divide_eq)
  then have "of_int (2 ^ 52) \<le> x / u" by simp
  then have "2 ^ 52 \<le> round_even (x / u)" by (rule round_even_ge)
  then have "real_of_int (2 ^ 52) \<le> of_int (round_even (x / u))" by (simp only: of_int_le_iff)
  then have "2 ^ 52 * u \<le> of_int (round_even (x / u)) * u"
    using u by simp
  moreover have "fl x = of_int (round_even (x / u)) * u"
    using assms by (simp add: fl_def u_def max_def Let_def)
  ultimately show ?thesis by (simp add: split)
qed

lemma to_double_overflow:
  assumes "2 ^ 1024 \<le> x"
  shows "to_double x = PInf"
proof -
  have "(0::real) < 2 ^ 1024" by simp
  with assms have x: "0 < x" by linarith
  have "1024 \<le> expo x"
  proof (rule ccontr)
    assume "\<not> 1024 \<le> expo x"
    then have "expo x + 1 \<le> 1024" by simp
    then have "pow2 (expo x + 1) \<le> pow2 1024" by (rule pow2_mono)
    moreover have "\<bar>x\<bar> < pow2 (expo x + 1)" using expo_bounds(2) [of x] x by simp
    moreover have "pow2 1024 = 2 ^ 1024" using pow2_nat [of 1024] by simp
    ultimately show False using assms x by simp
  qed
  then have "pow2 1024 \<le> pow2 (expo x)" by (rule pow2_mono)
  moreover have "pow2 (expo x) \<le> fl x" using fl_lower [of x] x \<open>1024 \<le> expo x\<close> by simp
  moreover have "pow2 1024 = 2 ^ 1024" using pow2_nat [of 1024] by simp
  ultimately have "2 ^ 1024 \<le> fl x" by simp
  then show ?thesis by (simp add: to_double_def Let_def)
qed

lemma abs_of_int_less_pow:
  assumes "\<bar>k\<bar> < (2::int) ^ n"
  shows "\<bar>real_of_int k\<bar> < 2 ^ n"
proof -
  have "real_of_int \<bar>k\<bar> < real_of_int (2 ^ n)" using assms by (simp only: of_int_less_iff)
  then show ?thesis by simp
qed

lemma pow2_strict_mono: "a < b \<Longrightarrow> pow2 a < pow2 b"
  by (simp add: pow2_powr)

lemma pow2_less_cancel: "pow2 a < pow2 b \<Longrightarrow> a < b"
  by (simp add: pow2_powr)

lemma pow2_neg: "e \<le> 0 \<Longrightarrow> pow2 e = 1 / 2 ^ nat (- e)"
  by (cases "e = 0") (simp_all add: pow2_def)

lemma round_even_nat_scaled: "round_even (of_int k * 2 ^ n) = k * 2 ^ n"
  using round_even_of_int [of "k * 2 ^ n"] by simp

text \<open>A value \<open>k * 2 ^ j\<close> with \<open>\<bar>k\<bar> < 2 ^ 53\<close> and \<open>j \<ge> - 1074\<close> is a double: rounding keeps it.\<close>

lemma fl_exact:
  assumes k: "\<bar>k\<bar> < 2 ^ 53" and j: "- 1074 \<le> j"
  shows "fl (of_int k * pow2 j) = of_int k * pow2 j"
proof (cases "k = 0")
  case True
  then show ?thesis by (simp add: fl_def)
next
  case False
  define x where "x = of_int k * pow2 j"
  have x0: "x \<noteq> 0" using False pow2_pos [of j] by (simp add: x_def)
  define e where "e = max (expo x) (- 1022)"
  define u where "u = pow2 (e - 52)"
  have u: "0 < u" by (simp add: u_def pow2_pos)
  have "pow2 (expo x) \<le> \<bar>x\<bar>" by (rule expo_bounds(1) [OF x0])
  also have "\<bar>x\<bar> = \<bar>of_int k\<bar> * pow2 j"
    using pow2_pos [of j] by (simp add: x_def abs_mult)
  also have "\<dots> < 2 ^ 53 * pow2 j"
  proof -
    have "\<bar>real_of_int k\<bar> < 2 ^ 53" using k by (rule abs_of_int_less_pow)
    then show ?thesis using pow2_pos [of j] by simp
  qed
  also have "\<dots> = pow2 (53 + j)" using pow2_add [of 53 j] by (simp add: pow2_def)
  finally have "expo x < 53 + j" by (rule pow2_less_cancel)
  then have ej: "0 \<le> j - e + 52" using j by (simp add: e_def)
  have "pow2 j = pow2 (j - e + 52) * u"
    using pow2_add [of "j - e + 52" "e - 52"] by (simp add: u_def)
  also have "pow2 (j - e + 52) = 2 ^ nat (j - e + 52)" using ej by (simp add: pow2_def)
  finally have pj: "pow2 j = 2 ^ nat (j - e + 52) * u" .
  have "x / u = of_int k * 2 ^ nat (j - e + 52)" using u by (simp add: x_def pj)
  then have "round_even (x / u) = k * 2 ^ nat (j - e + 52)"
    by (simp add: round_even_nat_scaled)
  then have "of_int (round_even (x / u)) * u = x"
    by (simp add: x_def pj)
  moreover have "fl x = of_int (round_even (x / u)) * u"
    using x0 by (simp add: fl_def u_def e_def Let_def)
  ultimately show ?thesis by (simp add: x_def)
qed

lemma fl_int: "\<bar>n\<bar> < 2 ^ 53 \<Longrightarrow> fl (of_int n) = of_int n"
  using fl_exact [of n 0] by (simp add: pow2_def)

lemma fl_nonneg:
  assumes "0 \<le> x"
  shows "0 \<le> fl x"
proof (cases "x = 0")
  case True
  then show ?thesis by (simp add: fl_def)
next
  case False
  define u where "u = pow2 (max (expo x) (- 1022) - 52)"
  have u: "0 < u" by (simp add: u_def pow2_pos)
  then have "of_int 0 \<le> x / u" using assms by simp
  then have "0 \<le> round_even (x / u)" by (rule round_even_ge)
  then have "0 \<le> of_int (round_even (x / u)) * u" using u by simp
  moreover have "fl x = of_int (round_even (x / u)) * u"
    using False by (simp add: fl_def u_def Let_def)
  ultimately show ?thesis by simp
qed

lemma to_double_fin: "\<bar>fl x\<bar> < 2 ^ 1024 \<Longrightarrow> to_double x = Fin (fl x)"
  by (auto simp add: to_double_def Let_def)

lemma to_double_int:
  assumes "\<bar>n\<bar> < 2 ^ 53"
  shows "to_double (of_int n) = Fin (of_int n)"
proof -
  have "\<bar>real_of_int n\<bar> < 2 ^ 53" using assms by (rule abs_of_int_less_pow)
  also have "(2::real) ^ 53 < 2 ^ 1024" by simp
  finally have "\<bar>fl (of_int n)\<bar> < 2 ^ 1024" by (simp add: fl_int [OF assms])
  then show ?thesis by (simp add: to_double_fin fl_int [OF assms])
qed


lemma fl_upper:
  assumes "x \<noteq> 0"
  shows "fl x \<le> x + pow2 (max (expo x) (- 1022) - 52) / 2"
proof -
  define u where "u = pow2 (max (expo x) (- 1022) - 52)"
  have u: "0 < u" by (simp add: u_def pow2_pos)
  have "of_int (round_even (x / u)) \<le> x / u + 1 / 2"
    using round_even_err [of "x / u"] by linarith
  then have "of_int (round_even (x / u)) * u \<le> (x / u + 1 / 2) * u"
    using u by (simp only: mult_le_cancel_right_pos)
  also have "\<dots> = x + u / 2" using u by (simp add: distrib_right)
  finally have "of_int (round_even (x / u)) * u \<le> x + u / 2" .
  moreover have "fl x = of_int (round_even (x / u)) * u"
    using assms by (simp add: fl_def u_def Let_def)
  ultimately show ?thesis by (simp add: u_def)
qed

lemma floor_fl_div:
  assumes n0: "0 \<le> n" and n: "n < 2 ^ 53" and d0: "0 < d" and d: "d < 2 ^ 53"
  shows "\<lfloor>fl (of_int n / of_int d)\<rfloor> = n div d"
proof (cases "n = 0")
  case True
  then show ?thesis by (simp add: fl_def)
next
  case False
  with n0 have npos: "0 < n" by simp
  define x where "x = real_of_int n / of_int d"
  define q where "q = n div d"
  define e where "e = expo x"
  have rd: "0 < real_of_int d" using d0 by simp
  have rn: "real_of_int n < 2 ^ 53"
    using abs_of_int_less_pow [of n 53] n n0 by simp
  have rd': "real_of_int d < 2 ^ 53"
    using abs_of_int_less_pow [of d 53] d d0 by simp
  have xpos: "0 < x" using npos rd by (simp add: x_def)
  then have x0: "x \<noteq> 0" by simp
  have "1 \<le> real_of_int n" using npos by simp
  then have "1 / real_of_int d \<le> x" using rd by (simp add: x_def divide_right_mono)
  moreover have "1 / 2 ^ 53 < 1 / real_of_int d"
    using rd rd' by (simp add: divide_strict_left_mono)
  ultimately have xlow: "pow2 (- 53) < x" by (simp add: pow2_def)
  have "1 \<le> real_of_int d" using d0 by simp
  then have "x \<le> real_of_int n" using npos by (simp add: x_def divide_le_eq)
  with rn have xhigh: "x < pow2 53" by (simp add: pow2_def)
  have lo: "pow2 e \<le> x" and hi: "x < pow2 (e + 1)"
    using expo_bounds [OF x0] xpos by (simp_all add: e_def)
  from lo xhigh have "pow2 e < pow2 53" by simp
  then have e53: "e < 53" by (rule pow2_less_cancel)
  from xlow hi have "pow2 (- 53) < pow2 (e + 1)" by simp
  then have "- 53 < e + 1" by (rule pow2_less_cancel)
  then have emax: "max e (- 1022) = e" by simp
  define N where "N = nat (52 - e)"
  define u where "u = pow2 (e - 52)"
  have u: "0 < u" by (simp add: u_def pow2_pos)
  have uN: "u = 1 / 2 ^ N" using e53 by (simp add: u_def N_def pow2_neg)
  have flx: "fl x = of_int (round_even (x / u)) * u"
    using x0 emax by (simp add: fl_def u_def e_def Let_def)
  have qx: "of_int q \<le> x"
    using floor_divide_of_int_eq [of n d, where ?'a = real] of_int_floor_le [of x]
    by (simp add: x_def q_def)
  have "real_of_int (q * 2 ^ N) \<le> x / u" using qx by (simp add: uN)
  then have "q * 2 ^ N \<le> round_even (x / u)" by (rule round_even_ge)
  then have "real_of_int (q * 2 ^ N) \<le> of_int (round_even (x / u))"
    by (simp only: of_int_le_iff)
  then have "real_of_int (q * 2 ^ N) * u \<le> of_int (round_even (x / u)) * u"
    using u by (simp only: mult_le_cancel_right_pos)
  then have lower: "of_int q \<le> fl x" by (simp add: flx uN)
  have "u = pow2 e * pow2 (- 52)" using pow2_add [of e "- 52"] by (simp add: u_def)
  also have "\<dots> \<le> x * pow2 (- 52)" using lo pow2_pos [of "- 52"] by simp
  finally have "u / 2 \<le> x / 2 ^ 53" by (simp add: pow2_def)
  also have "\<dots> = (real_of_int n / 2 ^ 53) / of_int d" by (simp add: x_def)
  also have "\<dots> < 1 / of_int d"
  proof -
    have "real_of_int n / 2 ^ 53 < 1" using rn by simp
    then show ?thesis using rd by (rule divide_strict_right_mono)
  qed
  finally have half: "u / 2 < 1 / of_int d" .
  have "n = q * d + n mod d" by (simp add: q_def)
  moreover have "n mod d \<le> d - 1" using d0 pos_mod_bound [of d n] by simp
  ultimately have "n \<le> q * d + d - 1" by linarith
  then have "real_of_int n \<le> real_of_int (q * d + d - 1)" by (simp only: of_int_le_iff)
  then have "real_of_int n \<le> (of_int q + 1 - 1 / of_int d) * of_int d"
    using rd by (simp add: algebra_simps)
  then have "x \<le> of_int q + 1 - 1 / of_int d"
    using rd by (simp add: x_def pos_divide_le_eq)
  moreover have "fl x \<le> x + u / 2" using fl_upper [OF x0] emax by (simp add: u_def e_def)
  ultimately have upper: "fl x < of_int q + 1" using half by linarith
  from lower upper have "\<lfloor>fl x\<rfloor> = q" by (simp add: floor_eq_iff)
  then show ?thesis by (simp add: x_def q_def)
qed



section \<open>formatTime on whole seconds below \<open>2 ^ 53\<close>\<close>

lemma int_div_le_self: "0 \<le> (n::int) \<Longrightarrow> 0 < d \<Longrightarrow> n div d \<le> n"
  using zdiv_mono2 [of n 1 d] by simp

lemma js_div_floor:
  assumes "0 \<le> n" and "n < 2 ^ 53" and "0 < d" and "d < 2 ^ 53"
  shows "Math_floor (js_div (Fin (of_int n)) (Fin (of_int d))) = Fin (of_int (n div d))"
proof -
  define g where "g = fl (of_int n / of_int d)"
  have fg: "\<lfloor>g\<rfloor> = n div d" unfolding g_def using assms by (rule floor_fl_div)
  have "0 \<le> real_of_int n / of_int d" using assms by simp
  then have g0: "0 \<le> g" unfolding g_def by (rule fl_nonneg)
  have "n div d \<le> n" using assms(1,3) by (rule int_div_le_self)
  then have "n div d + 1 \<le> 2 ^ 53" using assms(2) by simp
  then have "real_of_int (n div d + 1) \<le> real_of_int (2 ^ 53)" by (simp only: of_int_le_iff)
  moreover have "g < real_of_int (n div d + 1)" using fg by linarith
  ultimately have "g < 2 ^ 53" by simp
  also have "(2::real) ^ 53 < 2 ^ 1024" by simp
  finally have "\<bar>g\<bar> < 2 ^ 1024" using g0 by simp
  then have "to_double (of_int n / of_int d) = Fin g"
    unfolding g_def by (rule to_double_fin)
  then show ?thesis using assms(3) fg by simp
qed

lemma js_mul_int:
  assumes "\<bar>a * b\<bar> < 2 ^ 53"
  shows "js_mul (Fin (of_int a)) (Fin (of_int b)) = Fin (of_int (a * b))"
  using to_double_int [OF assms] by simp

lemma js_sub_int:
  assumes "\<bar>a - b\<bar> < 2 ^ 53"
  shows "js_sub (Fin (of_int a)) (Fin (of_int b)) = Fin (of_int (a - b))"
  using to_double_int [OF assms] by simp

lemma js_mod_int:
  assumes "0 \<le> a" and "0 < b"
  shows "js_mod (Fin (of_int a)) (Fin (of_int b)) = Fin (of_int (a mod b))"
proof -
  have "0 \<le> real_of_int a / of_int b" using assms by simp
  then have "trunc (real_of_int a / of_int b) = a div b"
    by (simp add: trunc_def floor_divide_of_int_eq)
  moreover have "a - b * (a div b) = a mod b" by (simp add: minus_mult_div_eq_mod)
  ultimately have "real_of_int a - of_int b * of_int (trunc (real_of_int a / of_int b)) =
      of_int (a mod b)"
    by (metis of_int_diff of_int_mult)
  then show ?thesis using assms by simp
qed

lemma pad_two_digits:
  assumes "0 \<le> k" and "k < 100"
  shows "padStart 2 (CHR ''0'') (js_String nts (Fin (of_int k))) = two_digits (nat k)"
proof -
  have "\<bar>real_of_int k\<bar> < 10 ^ 21"
  proof -
    have "real_of_int k < real_of_int 100" using assms(2) by (simp only: of_int_less_iff)
    then show ?thesis using assms(1) by simp
  qed
  then have str: "js_String nts (Fin (of_int k)) = decimal (nat k)"
    using assms(1) by simp
  show ?thesis
  proof (cases "k < 10")
    case True
    then have "nat k < 10" using assms(1) by simp
    then show ?thesis
      unfolding str
      by (simp add: decimal.simps [of "nat k"] padStart_def two_digits_def digit_char_def)
  next
    case False
    then have k: "10 \<le> nat k" "nat k < 100" using assms by simp_all
    then have "nat k div 10 < 10" by simp
    then have "decimal (nat k) = [digit_char (nat k div 10), digit_char (nat k mod 10)]"
      using k(1) by (simp add: decimal.simps [of "nat k"] decimal.simps [of "nat k div 10"])
    then show ?thesis unfolding str by (simp add: padStart_def two_digits_def)
  qed
qed


lemma formatTime_in_range:
  assumes r: "0 \<le> r" and t: "\<lfloor>fl (r * 3600) + 1 / 2\<rfloor> < 2 ^ 53"
  shows "formatTime nts (Fin r) = clock_string \<lfloor>fl (r * 3600) + 1 / 2\<rfloor>"
proof -
  define F where "F = fl (r * 3600)"
  define T where "T = \<lfloor>F + 1 / 2\<rfloor>"
  define q where "q = T div 3600"
  define R where "R = T mod 3600"
  define M where "M = R div 60"
  have T53: "T < 2 ^ 53" using t by (simp add: T_def F_def)
  have F0: "0 \<le> F" unfolding F_def using r by (intro fl_nonneg) simp
  then have T0: "0 \<le> T" by (simp add: T_def)
  have "F < of_int T + 1" unfolding T_def by linarith
  moreover have "T + 1 \<le> 2 ^ 53" using T53 by simp
  then have "real_of_int (T + 1) \<le> real_of_int (2 ^ 53)" by (simp only: of_int_le_iff)
  ultimately have "F < 2 ^ 53" by simp
  also have "(2::real) ^ 53 < 2 ^ 1024" by simp
  finally have "\<bar>F\<bar> < 2 ^ 1024" using F0 by simp
  then have mul: "js_mul (Fin r) (Fin 3600) = Fin F"
    unfolding F_def by (simp add: to_double_fin)
  have total: "Math_round (js_mul (Fin r) (Fin 3600)) = Fin (of_int T)"
    unfolding mul by (simp add: T_def)
  have q0: "0 \<le> q" using T0 by (simp add: q_def pos_imp_zdiv_nonneg_iff)
  have R0: "0 \<le> R" and R3600: "R < 3600" by (simp_all add: R_def)
  have M0: "0 \<le> M" and M60: "M < 60" using R0 R3600 by (simp_all add: M_def pos_imp_zdiv_nonneg_iff)
  have TqR: "T = q * 3600 + R" by (simp add: q_def R_def)
  have quot: "Math_floor (js_div (Fin (of_int T)) (Fin 3600)) = Fin (of_int q)"
    using js_div_floor [of T 3600] T0 T53 by (simp add: q_def)
  have hours: "js_mod (Fin (of_int q)) (Fin 24) = Fin (of_int (q mod 24))"
    using js_mod_int [of q 24] q0 by simp
  have "\<bar>q * 3600\<bar> < 2 ^ 53" using q0 R0 TqR T53 by simp
  then have qmul: "js_mul (Fin (of_int q)) (Fin 3600) = Fin (of_int (q * 3600))"
    using js_mul_int [of q 3600] by simp
  have "\<bar>T - q * 3600\<bar> < 2 ^ 53" using TqR R0 R3600 by simp
  then have rem: "js_sub (Fin (of_int T)) (Fin (of_int (q * 3600))) = Fin (of_int R)"
    using js_sub_int [of T "q * 3600"] TqR by simp
  have mins: "Math_floor (js_div (Fin (of_int R)) (Fin 60)) = Fin (of_int M)"
    using js_div_floor [of R 60] R0 R3600 by (simp add: M_def)
  have "\<bar>M * 60\<bar> < 2 ^ 53" using M0 M60 by simp
  then have mmul: "js_mul (Fin (of_int M)) (Fin 60) = Fin (of_int (M * 60))"
    using js_mul_int [of M 60] by simp
  have RM: "R - M * 60 = R mod 60" by (simp add: M_def minus_div_mult_eq_mod)
  have "\<bar>R - M * 60\<bar> < 2 ^ 53" by (simp add: RM)
  then have secs: "js_sub (Fin (of_int R)) (Fin (of_int (M * 60))) = Fin (of_int (R mod 60))"
    using js_sub_int [of R "M * 60"] RM by simp
  have ph: "padStart 2 (CHR ''0'') (js_String nts (Fin (of_int (q mod 24)))) =
      two_digits (nat (q mod 24))"
    by (rule pad_two_digits) simp_all
  have pm: "padStart 2 (CHR ''0'') (js_String nts (Fin (of_int M))) = two_digits (nat M)"
    using M0 M60 by (intro pad_two_digits) simp_all
  have ps: "padStart 2 (CHR ''0'') (js_String nts (Fin (of_int (R mod 60)))) =
      two_digits (nat (R mod 60))"
    by (rule pad_two_digits) simp_all
  have "formatTime nts (Fin r) =
      two_digits (nat (q mod 24)) @ '':'' @ two_digits (nat M) @ '':'' @
      two_digits (nat (R mod 60))"
    using r unfolding formatTime_def Let_def total quot hours qmul rem mins mmul secs ph pm ps
    by simp
  moreover have "R mod 60 = T mod 60" by (simp add: R_def mod_mod_cancel)
  ultimately show ?thesis
    by (simp add: clock_string_def T_def F_def q_def R_def M_def)
qed

text \<open>
  The string N/A is returned for the negative and the non-finite inputs and for no other:
  every other result holds a colon.
\<close>

lemma formatTime_NA_iff:
  "formatTime nts x = ''N/A'' \<longleftrightarrow> \<not> isFinite x \<or> js_lt x (Fin 0)"
proof
  assume na: "formatTime nts x = ''N/A''"
  show "\<not> isFinite x \<or> js_lt x (Fin 0)"
  proof (rule ccontr)
    assume "\<not> (\<not> isFinite x \<or> js_lt x (Fin 0))"
    then have "CHR '':'' \<in> set (formatTime nts x)"
      by (simp add: formatTime_def Let_def)
    with na show False by simp
  qed
next
  assume "\<not> isFinite x \<or> js_lt x (Fin 0)"
  then show "formatTime nts x = ''N/A''" by (auto simp add: formatTime_def)
qed

section \<open>formatTime beyond the range of a double\<close>

lemma formatTime_overflow:
  assumes "2 ^ 1024 \<le> r * 3600"
  shows "formatTime nts (Fin r) = ''NaN:NaN:NaN''"
proof -
  have "(0::real) < 2 ^ 1024" by simp
  with assms have "0 < r * 3600" by linarith
  then have "\<not> r < 0" by (simp add: zero_less_mult_iff)
  then show ?thesis
    by (simp add: formatTime_def to_double_overflow [OF assms] signed_inf_def padStart_def)
qed


text \<open>
  C8. The claim: for every finite \<open>hours \<ge> 0\<close>, \<^verbatim>\<open>formatTime\<close> returns a string of the
  form HH:MM:SS. The guard \<^verbatim>\<open>isFinite(hours)\<close> runs before the multiplication by 3600. At
  \<open>hours = 2 ^ 1023\<close>, a finite double, the product overflows to \<open>+\<infinity>\<close>, every later value
  is NaN, and the result is the string \<^verbatim>\<open>NaN:NaN:NaN\<close>, whatever \<^verbatim>\<open>Number::toString\<close> does.
\<close>

theorem formatTime_at_2_pow_1023: "formatTime nts (Fin (2 ^ 1023)) = ''NaN:NaN:NaN''"
  by (rule formatTime_overflow) simp

theorem formatTime_at_2_pow_1023_witness:
  "isFinite (Fin (2 ^ 1023)) \<and> \<not> js_lt (Fin (2 ^ 1023)) (Fin 0) \<and>
   formatTime (\<lambda>r. []) (Fin (2 ^ 1023)) = ''NaN:NaN:NaN''"
  using formatTime_at_2_pow_1023 [of "\<lambda>r. []"] by simp

section \<open>The binding and the engine\<close>

lemma spa_reaches_engine:
  assumes "time_valid d" and "- 90 \<le> la" and "la \<le> 90" and "- 180 \<le> lo" and "lo \<le> 180"
    and "module_loads host" and "malloc_ok host"
  shows "spa host (Some d) (JSNumber (Fin la)) (JSNumber (Fin lo)) options =
     (let rc = fst (spa_calculate host (engine_input host d (Fin la) (Fin lo) options));
          out = snd (spa_calculate host (engine_input host d (Fin la) (Fin lo) options))
      in if rc \<noteq> 0 then Inl (CalculationFailed rc)
         else Inr \<lparr>r_zenith = zenith out, r_azimuth_astro = azimuth_astro out,
                    r_azimuth = azimuth out, r_incidence = incidence out,
                    r_sunrise = sunrise out, r_sunset = sunset out,
                    r_suntransit = suntransit out, r_sun_transit_alt = sta out,
                    r_eot = eot out, r_error_code = 0\<rparr>)"
  using assms
  by (simp add: spa_def spa_calculate_wrapper_def engine_input_def readResult_def js_gt_def
      Let_def)

lemma wrapper_failure_filler:
  assumes "spa_calculate_wrapper host y mo dd h mi s tz la lo el pr te du dt sl az ar fc = Some r"
    and "r_error_code r \<noteq> 0"
  shows "r_zenith r = Fin 0 \<and> r_azimuth_astro r = Fin 0 \<and> r_azimuth r = Fin 0 \<and>
         r_incidence r = Fin 0 \<and> r_sunrise r = Fin 0 \<and> r_sunset r = Fin 0 \<and>
         r_suntransit r = Fin 0 \<and> r_sun_transit_alt r = Fin 0 \<and> r_eot r = Fin 0"
  using assms
  by (auto simp add: spa_calculate_wrapper_def Let_def split: if_splits)

lemma spa_result_ok:
  assumes "spa host date lat lon options = Inr r"
  shows "r_error_code r = 0"
  using assms
  by (auto simp add: spa_def Let_def split: option.splits if_splits sum.splits)


lemma first_violation_year:
  assumes "out_int (- 2000) 6000 (year d)"
  shows "first_violation d = Some Year"
  using assms by (simp add: first_violation_def check_order_def)

lemma spec_engine_rejects_year:
  assumes "out_int (- 2000) 6000 (year d)"
  shows "spa_calculate_spec code_of astro d = (code_of Year, d)"
  by (simp add: spa_calculate_spec_def first_violation_year [OF assms])


section \<open>Evaluation on concrete inputs\<close>

lemma fl_5667: "fl (5667 / 10000) = 638047477207715 / 1125899906842624"
  by (simp add: fl_def expo_def compute_bitlen pow2_def round_even_def)

lemma formatTime_whole:
  assumes "0 \<le> k" and "k < 2 ^ 53" and "r * 3600 = of_int k"
  shows "formatTime nts (Fin r) = clock_string k"
proof -
  have f: "fl (r * 3600) = of_int k" using assms by (simp add: fl_int)
  have r: "0 \<le> r" using assms(1,3) by (simp add: zero_le_mult_iff)
  have "\<lfloor>fl (r * 3600) + 1 / 2\<rfloor> = k" by (simp add: f)
  then show ?thesis using formatTime_in_range [OF r, of nts] assms(2) by simp
qed

lemma clock_examples:
  "clock_string 23400 = ''06:30:00''" "clock_string 65700 = ''18:15:00''"
  "clock_string 43200 = ''12:00:00''" "clock_string 88200 = ''00:30:00''"
  by (simp_all add: clock_string_def two_digits_def digit_char_def)

lemma formatTime_examples:
  "formatTime nts (Fin (13 / 2)) = ''06:30:00''"
  "formatTime nts (Fin (73 / 4)) = ''18:15:00''"
  "formatTime nts (Fin 12) = ''12:00:00''"
  "formatTime nts (Fin (49 / 2)) = ''00:30:00''"
  using formatTime_whole [of 23400 "13 / 2" nts] formatTime_whole [of 65700 "73 / 4" nts]
    formatTime_whole [of 43200 12 nts] formatTime_whole [of 88200 "49 / 2" nts]
  by (simp_all add: clock_examples)

text \<open>A time less than half a second before midnight rounds up to 24:00:00 and wraps.\<close>

lemma formatTime_rounds_up_to_midnight:
  "formatTime nts (Fin (24 - 1 / 2 ^ 20)) = ''00:00:00''"
proof -
  have x: "(24 - 1 / 2 ^ 20) * 3600 = real_of_int 5662310175 * pow2 (- 16)"
    by (simp add: pow2_def)
  have f: "fl ((24 - 1 / 2 ^ 20) * 3600) = (24 - 1 / 2 ^ 20) * 3600"
    unfolding x by (rule fl_exact) simp_all
  have t: "\<lfloor>fl ((24 - 1 / 2 ^ 20) * 3600) + 1 / 2\<rfloor> = 86400"
    unfolding f by (simp add: floor_eq_iff)
  have "formatTime nts (Fin (24 - 1 / 2 ^ 20)) = clock_string 86400"
    using formatTime_in_range [of "24 - 1 / 2 ^ 20" nts] unfolding t by simp
  then show ?thesis by (simp add: clock_string_def two_digits_def digit_char_def)
qed

lemma to_double_7: "to_double 7 = Fin 7"
  using to_double_int [of 7] by simp

lemma sample_input_accepted:
  "first_violation (engine_input sample_host reference_date (Fin (159 / 4)) (Fin (- 421 / 4)) None)
     = None"
  by (simp add: first_violation_def check_order_def engine_input_def sample_host_def
      reference_date_def zero_spa_data_def no_options_def nullish_def out_int_def out_num_def
      js_gt_def to_double_7 fl_5667 SPA_ALL_def)

lemma sample_spa:
  "spa sample_host (Some reference_date) (JSNumber (Fin (159 / 4))) (JSNumber (Fin (- 421 / 4)))
     None =
   Inr \<lparr>r_zenith = Fin 50, r_azimuth_astro = Fin 14, r_azimuth = Fin 194, r_incidence = Fin 25,
        r_sunrise = Fin (13 / 2), r_sunset = Fin (73 / 4), r_suntransit = Fin 12,
        r_sun_transit_alt = Fin 40, r_eot = Fin 14, r_error_code = 0\<rparr>"
proof -
  have "spa_calculate sample_host
          (engine_input sample_host reference_date (Fin (159 / 4)) (Fin (- 421 / 4)) None) =
        (0, sample_astro
              (engine_input sample_host reference_date (Fin (159 / 4)) (Fin (- 421 / 4)) None))"
    using sample_input_accepted by (simp add: sample_host_def spa_calculate_spec_def)
  moreover have "time_valid reference_date" "module_loads sample_host" "malloc_ok sample_host"
    by (simp_all add: reference_date_def sample_host_def)
  ultimately show ?thesis
    using spa_reaches_engine [of reference_date "159 / 4" "- 421 / 4" sample_host None]
    by (simp add: sample_astro_def)
qed


section \<open>Failure of the engine\<close>

text \<open>
  C1. When the engine returns a non-zero code, the nine numeric fields of the structure that
  the wrapper returns are all \<open>0.0\<close>; \<^verbatim>\<open>spa\<close>, having passed its own checks, then throws
  the error that carries the code, and \<^verbatim>\<open>spa\<close> never resolves with a non-zero error code.
  With the validation of the spec in place of the engine, the year 6001 is rejected with the
  code of the year, the structure holds the filler, and \<^verbatim>\<open>spa\<close> throws.
\<close>

theorem engine_failure_gives_filler_and_throw:
  "(spa_calculate_wrapper host y mo dd h mi s tz la lo el pr te du dt sl az ar fc = Some r \<and>
      r_error_code r \<noteq> 0 \<longrightarrow>
        r_zenith r = Fin 0 \<and> r_azimuth_astro r = Fin 0 \<and> r_azimuth r = Fin 0 \<and>
        r_incidence r = Fin 0 \<and> r_sunrise r = Fin 0 \<and> r_sunset r = Fin 0 \<and>
        r_suntransit r = Fin 0 \<and> r_sun_transit_alt r = Fin 0 \<and> r_eot r = Fin 0) \<and>
   (time_valid d \<and> - 90 \<le> lat \<and> lat \<le> 90 \<and> - 180 \<le> lon \<and> lon \<le> 180 \<and>
      module_loads host \<and> malloc_ok host \<and>
      fst (spa_calculate host (engine_input host d (Fin lat) (Fin lon) options)) \<noteq> 0 \<longrightarrow>
        spa host (Some d) (JSNumber (Fin lat)) (JSNumber (Fin lon)) options =
          Inl (CalculationFailed
                (fst (spa_calculate host (engine_input host d (Fin lat) (Fin lon) options))))) \<and>
   (spa host date a_lat a_lon options' = Inr r' \<longrightarrow> r_error_code r' = 0) \<and>
   (spa_calculate host = spa_calculate_spec code_of astro \<and> code_of Year \<noteq> 0 \<and>
      malloc_ok host \<longrightarrow>
        spa_calculate_wrapper host 6001 mo dd h mi s tz la lo el pr te du dt sl az ar fc =
          Some \<lparr>r_zenith = Fin 0, r_azimuth_astro = Fin 0, r_azimuth = Fin 0,
                r_incidence = Fin 0, r_sunrise = Fin 0, r_sunset = Fin 0,
                r_suntransit = Fin 0, r_sun_transit_alt = Fin 0, r_eot = Fin 0,
                r_error_code = code_of Year\<rparr>) \<and>
   (spa_calculate host = spa_calculate_spec code_of astro \<and> code_of Year \<noteq> 0 \<and>
      getFullYear d = 6001 \<and>
      time_valid d \<and> - 90 \<le> lat \<and> lat \<le> 90 \<and> - 180 \<le> lon \<and> lon \<le> 180 \<and>
      module_loads host \<and> malloc_ok host \<longrightarrow>
        spa host (Some d) (JSNumber (Fin lat)) (JSNumber (Fin lon)) options =
          Inl (CalculationFailed (code_of Year)))"
proof (intro conjI impI)
  assume "spa_calculate_wrapper host y mo dd h mi s tz la lo el pr te du dt sl az ar fc = Some r \<and>
      r_error_code r \<noteq> 0"
  then have a: "spa_calculate_wrapper host y mo dd h mi s tz la lo el pr te du dt sl az ar fc = Some r"
    and b: "r_error_code r \<noteq> 0" by simp_all
  from wrapper_failure_filler [OF a b]
  show "r_zenith r = Fin 0" "r_azimuth_astro r = Fin 0" "r_azimuth r = Fin 0"
    "r_incidence r = Fin 0" "r_sunrise r = Fin 0" "r_sunset r = Fin 0"
    "r_suntransit r = Fin 0" "r_sun_transit_alt r = Fin 0" "r_eot r = Fin 0"
    by simp_all
next
  assume "time_valid d \<and> - 90 \<le> lat \<and> lat \<le> 90 \<and> - 180 \<le> lon \<and> lon \<le> 180 \<and>
      module_loads host \<and> malloc_ok host \<and>
      fst (spa_calculate host (engine_input host d (Fin lat) (Fin lon) options)) \<noteq> 0"
  then show "spa host (Some d) (JSNumber (Fin lat)) (JSNumber (Fin lon)) options =
          Inl (CalculationFailed
                (fst (spa_calculate host (engine_input host d (Fin lat) (Fin lon) options))))"
    by (simp add: spa_reaches_engine)
next
  assume "spa host date a_lat a_lon options' = Inr r'"
  then show "r_error_code r' = 0" by (rule spa_result_ok)
next
  assume h: "spa_calculate host = spa_calculate_spec code_of astro \<and> code_of Year \<noteq> 0 \<and>
      malloc_ok host"
  show "spa_calculate_wrapper host 6001 mo dd h mi s tz la lo el pr te du dt sl az ar fc =
          Some \<lparr>r_zenith = Fin 0, r_azimuth_astro = Fin 0, r_azimuth = Fin 0,
                r_incidence = Fin 0, r_sunrise = Fin 0, r_sunset = Fin 0,
                r_suntransit = Fin 0, r_sun_transit_alt = Fin 0, r_eot = Fin 0,
                r_error_code = code_of Year\<rparr>"
    using h by (simp add: spa_calculate_wrapper_def spec_engine_rejects_year out_int_def)
next
  assume h: "spa_calculate host = spa_calculate_spec code_of astro \<and> code_of Year \<noteq> 0 \<and>
      getFullYear d = 6001 \<and>
      time_valid d \<and> - 90 \<le> lat \<and> lat \<le> 90 \<and> - 180 \<le> lon \<and> lon \<le> 180 \<and>
      module_loads host \<and> malloc_ok host"
  have "out_int (- 2000) 6000 (year (engine_input host d (Fin lat) (Fin lon) options))"
    using h by (simp add: engine_input_def out_int_def Let_def)
  then have "spa_calculate host (engine_input host d (Fin lat) (Fin lon) options) =
      (code_of Year, engine_input host d (Fin lat) (Fin lon) options)"
    using h by (simp add: spec_engine_rejects_year)
  then show "spa host (Some d) (JSNumber (Fin lat)) (JSNumber (Fin lon)) options =
          Inl (CalculationFailed (code_of Year))"
    using h by (simp add: spa_reaches_engine)
qed

theorem engine_failure_gives_filler_and_throw_witness:
  "spa_calculate_wrapper sample_host 6001 6 21 12 0 (Fin 0) (Fin 0) (Fin 30) (Fin 0) (Fin 0)
     (Fin 1000) (Fin 15) (Fin 0) (Fin 0) (Fin 0) (Fin 0) (Fin (1 / 2)) 3 =
     Some \<lparr>r_zenith = Fin 0, r_azimuth_astro = Fin 0, r_azimuth = Fin 0,
           r_incidence = Fin 0, r_sunrise = Fin 0, r_sunset = Fin 0,
           r_suntransit = Fin 0, r_sun_transit_alt = Fin 0, r_eot = Fin 0,
           r_error_code = 1\<rparr> \<and>
   spa sample_host (Some (reference_date\<lparr>getFullYear := 6001\<rparr>)) (JSNumber (Fin 30))
     (JSNumber (Fin 0)) None = Inl (CalculationFailed 1) \<and>
   spa sample_host (Some reference_date) (JSNumber (Fin (159 / 4))) (JSNumber (Fin (- 421 / 4)))
     None =
   Inr \<lparr>r_zenith = Fin 50, r_azimuth_astro = Fin 14, r_azimuth = Fin 194, r_incidence = Fin 25,
        r_sunrise = Fin (13 / 2), r_sunset = Fin (73 / 4), r_suntransit = Fin 12,
        r_sun_transit_alt = Fin 40, r_eot = Fin 14, r_error_code = 0\<rparr>"
  using engine_failure_gives_filler_and_throw
    [of sample_host 6001 6 21 12 0 "Fin 0" "Fin 0" "Fin 30" "Fin 0" "Fin 0" "Fin 1000" "Fin 15"
        "Fin 0" "Fin 0" "Fin 0" "Fin 0" "Fin (1 / 2)" 3
        "\<lparr>r_zenith = Fin 0, r_azimuth_astro = Fin 0, r_azimuth = Fin 0,
           r_incidence = Fin 0, r_sunrise = Fin 0, r_sunset = Fin 0,
           r_suntransit = Fin 0, r_sun_transit_alt = Fin 0, r_eot = Fin 0,
           r_error_code = 1\<rparr>"
        "reference_date\<lparr>getFullYear := 6001\<rparr>" 30 0 None
        "Some reference_date" "JSNumber (Fin (159 / 4))" "JSNumber (Fin (- 421 / 4))" None
        "\<lparr>r_zenith = Fin 50, r_azimuth_astro = Fin 14, r_azimuth = Fin 194,
          r_incidence = Fin 25, r_sunrise = Fin (13 / 2), r_sunset = Fin (73 / 4),
          r_suntransit = Fin 12, r_sun_transit_alt = Fin 40, r_eot = Fin 14,
          r_error_code = 0\<rparr>"
        sample_code sample_astro]
    sample_spa
  by (simp add: sample_host_def reference_date_def)

section \<open>spaFormatted\<close>

text \<open>
  C9. Whenever \<^verbatim>\<open>spa\<close> resolves with a result, \<^verbatim>\<open>spaFormatted\<close> with the same arguments
  resolves with the same zenith, both azimuths, incidence, transit altitude, equation of time
  and error code, and with \<^verbatim>\<open>formatTime\<close> of the sunrise, sunset and transit of that
  result; the record has these ten fields and no other.
\<close>

theorem spaFormatted_agrees_with_spa:
  assumes "spa host date a_latitude a_longitude options = Inr r"
  shows "spaFormatted nts host date a_latitude a_longitude options =
     Inr \<lparr>f_zenith = r_zenith r, f_azimuth_astro = r_azimuth_astro r, f_azimuth = r_azimuth r,
          f_incidence = r_incidence r, f_sunrise = formatTime nts (r_sunrise r),
          f_sunset = formatTime nts (r_sunset r),
          f_suntransit = formatTime nts (r_suntransit r),
          f_sun_transit_alt = r_sun_transit_alt r, f_eot = r_eot r,
          f_error_code = r_error_code r\<rparr>"
  using assms by (simp add: spaFormatted_def)

theorem spaFormatted_agrees_with_spa_witness:
  "spa sample_host (Some reference_date) (JSNumber (Fin (159 / 4))) (JSNumber (Fin (- 421 / 4)))
     None =
   Inr \<lparr>r_zenith = Fin 50, r_azimuth_astro = Fin 14, r_azimuth = Fin 194, r_incidence = Fin 25,
        r_sunrise = Fin (13 / 2), r_sunset = Fin (73 / 4), r_suntransit = Fin 12,
        r_sun_transit_alt = Fin 40, r_eot = Fin 14, r_error_code = 0\<rparr> \<and>
   spaFormatted (\<lambda>r. []) sample_host (Some reference_date) (JSNumber (Fin (159 / 4)))
     (JSNumber (Fin (- 421 / 4))) None =
   Inr \<lparr>f_zenith = Fin 50, f_azimuth_astro = Fin 14, f_azimuth = Fin 194, f_incidence = Fin 25,
        f_sunrise = ''06:30:00'', f_sunset = ''18:15:00'', f_suntransit = ''12:00:00'',
        f_sun_transit_alt = Fin 40, f_eot = Fin 14, f_error_code = 0\<rparr>"
  using spaFormatted_agrees_with_spa [OF sample_spa, of "\<lambda>r. []"] sample_spa
  by (simp add: formatTime_examples)


section \<open>The legacy binding on a rejected input\<close>







section \<open>The validation of the spec\<close>







section \<open>Supplied values and defaults\<close>













section \<open>Out-of-bounds inputs\<close>








end
